theory Spec2Isabelle
  imports Main
begin

section \<open>Python values, objects and errors\<close>

text \<open>
  The two source files, \<^verbatim>\<open>app/models/params.py\<close> and
  \<^verbatim>\<open>app/middleware/http_middleware.py\<close>, are dynamically typed: the fields of a
  filter hold any value, an attribute of an object may be missing, and a call or an
  attribute read may raise. The model therefore has one type of Python values, objects as
  the association list of their instance attributes, and every raise as an \<open>Inl\<close>.
\<close>

text \<open>\<^verbatim>\<open>class OP_FIELD(Enum)\<close> and \<^verbatim>\<open>class OP(Enum)\<close>, members in definition order.\<close>

datatype OP_FIELD = EQ | NE | CONTAIN | IN | NOT_IN | GT | GTE | LT | LTE | NOT

datatype OP = AND | OR | NOR

fun OP_FIELD_value :: "OP_FIELD \<Rightarrow> string" where
  "OP_FIELD_value EQ = ''$eq''"
| "OP_FIELD_value NE = ''$ne''"
| "OP_FIELD_value CONTAIN = ''$regex''"
| "OP_FIELD_value IN = ''$in''"
| "OP_FIELD_value NOT_IN = ''$nin''"
| "OP_FIELD_value GT = ''$gt''"
| "OP_FIELD_value GTE = ''$gte''"
| "OP_FIELD_value LT = ''$lt''"
| "OP_FIELD_value LTE = ''$lte''"
| "OP_FIELD_value NOT = ''$not''"

fun OP_value :: "OP \<Rightarrow> string" where
  "OP_value AND = ''$and''"
| "OP_value OR = ''$or''"
| "OP_value NOR = ''$nor''"

text \<open>Iterating an Enum class yields its members in definition order.\<close>

definition OP_FIELD_members :: "OP_FIELD list" where
  "OP_FIELD_members = [EQ, NE, CONTAIN, IN, NOT_IN, GT, GTE, LT, LTE, NOT]"

definition OP_members :: "OP list" where
  "OP_members = [AND, OR, NOR]"

text \<open>
  A float is kept only as far as the code looks at it (\<open>isinstance\<close>, truth value):
  a finite value \<open>m * 2 ^ e\<close>, the infinities and NaN.
\<close>

datatype pyfloat = FloatFinite int int | FloatInf | FloatNegInf | FloatNaN

datatype pyclass =
  Filter_cls | SingleFilter_cls | CombinedFilter_cls
  | HTTPException_cls | Exception_cls | BaseException_cls

text \<open>
  \<open>PObj c attrs\<close> is an instance of class \<open>c\<close> whose instance dictionary is
  \<open>attrs\<close>; \<open>PFieldOp m\<close> and \<open>POp m\<close> are the Enum members themselves, as
  opposed to their string values \<open>PStr (OP_FIELD_value m)\<close>.
\<close>

datatype pyval =
  PNone
  | PBool bool
  | PInt int
  | PFloat pyfloat
  | PStr string
  | PList "pyval list"
  | PTuple "pyval list"
  | PDict "(pyval \<times> pyval) list"
  | PFieldOp OP_FIELD
  | POp OP
  | PObj pyclass "(string \<times> pyval) list"

datatype pyerror =
  AttributeError string
  | TypeError
  | ValueError string
  | NotImplementedError string

type_synonym 'a result = "pyerror + 'a"

text \<open>Sequencing of two steps, the first of which may raise.\<close>

definition err_bind :: "'a result \<Rightarrow> ('a \<Rightarrow> 'b result) \<Rightarrow> 'b result" where
  "err_bind m f = (case m of Inl e \<Rightarrow> Inl e | Inr x \<Rightarrow> f x)"

text \<open>A list comprehension whose element expression may raise: it stops at the first raise.\<close>

fun map_err :: "('a \<Rightarrow> 'b result) \<Rightarrow> 'a list \<Rightarrow> 'b list result" where
  "map_err f [] = Inr []"
| "map_err f (x # xs) = err_bind (f x) (\<lambda>y. err_bind (map_err f xs) (\<lambda>ys. Inr (y # ys)))"

text \<open>
  \<^verbatim>\<open>self.name\<close>: the attribute of the instance, AttributeError when the instance
  has none of that name. (None of the names read is a class attribute of the classes of
  \<^verbatim>\<open>params.py\<close>.)
\<close>

fun getattr :: "pyval \<Rightarrow> string \<Rightarrow> pyval result" where
  "getattr (PObj c attrs) name =
     (case map_of attrs name of None \<Rightarrow> Inl (AttributeError name) | Some v \<Rightarrow> Inr v)"
| "getattr v name = Inl (AttributeError name)"

fun hasattr :: "pyval \<Rightarrow> string \<Rightarrow> bool" where
  "hasattr (PObj c attrs) name = (case map_of attrs name of None \<Rightarrow> False | Some v \<Rightarrow> True)"
| "hasattr v name = False"

text \<open>
  \<^verbatim>\<open>x == s\<close> for a string \<open>s\<close>: true for an equal string only. In particular
  a member of a plain \<open>Enum\<close> is not equal to its value.
\<close>

definition py_eq_str :: "pyval \<Rightarrow> string \<Rightarrow> bool" where
  "py_eq_str x s = (x = PStr s)"

text \<open>\<^verbatim>\<open>isinstance(v, list)\<close>, \<^verbatim>\<open>isinstance(v, int)\<close> (a bool is an int), \<^verbatim>\<open>isinstance(v, float)\<close>.\<close>

fun isinstance_list :: "pyval \<Rightarrow> bool" where
  "isinstance_list (PList xs) = True"
| "isinstance_list v = False"

fun isinstance_int :: "pyval \<Rightarrow> bool" where
  "isinstance_int (PInt i) = True"
| "isinstance_int (PBool b) = True"
| "isinstance_int v = False"

fun isinstance_float :: "pyval \<Rightarrow> bool" where
  "isinstance_float (PFloat x) = True"
| "isinstance_float v = False"

text \<open>The truth value of a value, as \<^verbatim>\<open>not v\<close> tests it.\<close>

fun py_truthy :: "pyval \<Rightarrow> bool" where
  "py_truthy PNone = False"
| "py_truthy (PBool b) = b"
| "py_truthy (PInt i) = (i \<noteq> 0)"
| "py_truthy (PFloat (FloatFinite m e)) = (m \<noteq> 0)"
| "py_truthy (PFloat x) = True"
| "py_truthy (PStr s) = (s \<noteq> [])"
| "py_truthy (PList xs) = (xs \<noteq> [])"
| "py_truthy (PTuple xs) = (xs \<noteq> [])"
| "py_truthy (PDict kvs) = (kvs \<noteq> [])"
| "py_truthy (PFieldOp m) = True"
| "py_truthy (POp m) = True"
| "py_truthy (PObj c attrs) = True"

text \<open>
  The elements a \<^verbatim>\<open>for\<close> clause draws from a value: the items of a list or tuple,
  the characters of a string, the keys of a dict; TypeError for a value that is not iterable.
\<close>

fun py_iter :: "pyval \<Rightarrow> pyval list result" where
  "py_iter (PList xs) = Inr xs"
| "py_iter (PTuple xs) = Inr xs"
| "py_iter (PStr s) = Inr (map (\<lambda>c. PStr [c]) s)"
| "py_iter (PDict kvs) = Inr (map fst kvs)"
| "py_iter v = Inl TypeError"

text \<open>Lists and dicts are unhashable, a tuple is hashable when its items are.\<close>

fun py_hashable :: "pyval \<Rightarrow> bool" where
  "py_hashable (PList xs) = False"
| "py_hashable (PDict kvs) = False"
| "py_hashable (PTuple xs) = list_all py_hashable xs"
| "py_hashable v = True"

text \<open>
  \<^verbatim>\<open>d[k] = v\<close> on a dict in insertion order: TypeError for an unhashable key, the
  value replaced in place for a key already there, the pair appended otherwise. (The
  stores of \<^verbatim>\<open>params.py\<close> are into a dict that is still empty, those of the error
  handler under string keys, so that keys are compared as strings only.)
\<close>

fun dict_update :: "(pyval \<times> pyval) list \<Rightarrow> pyval \<Rightarrow> pyval \<Rightarrow> (pyval \<times> pyval) list" where
  "dict_update [] k v = [(k, v)]"
| "dict_update ((k', v') # d) k v = (if k' = k then (k, v) # d else (k', v') # dict_update d k v)"

definition setitem :: "(pyval \<times> pyval) list \<Rightarrow> pyval \<Rightarrow> pyval \<Rightarrow> pyval result" where
  "setitem d k v = (if py_hashable k then Inr (PDict (dict_update d k v)) else Inl TypeError)"

section \<open>The error handler of \<^verbatim>\<open>http_middleware.py\<close>\<close>

text \<open>
  \<^verbatim>\<open>json.dumps\<close> raises TypeError for a value that is no JSON value (an Enum member,
  an instance of a class) and for a dict key that is not a string, number, bool or None. The
  JSON text it returns is kept as the value it encodes.
\<close>

fun json_key_ok :: "pyval \<Rightarrow> bool" where
  "json_key_ok PNone = True"
| "json_key_ok (PBool b) = True"
| "json_key_ok (PInt i) = True"
| "json_key_ok (PFloat x) = True"
| "json_key_ok (PStr s) = True"
| "json_key_ok v = False"

fun json_serializable :: "pyval \<Rightarrow> bool" where
  "json_serializable (PList xs) = list_all json_serializable xs"
| "json_serializable (PTuple xs) = list_all json_serializable xs"
| "json_serializable (PDict kvs) =
     list_all (\<lambda>kv. json_key_ok (fst kv) \<and> json_serializable (snd kv)) kvs"
| "json_serializable (PFieldOp m) = False"
| "json_serializable (POp m) = False"
| "json_serializable (PObj c attrs) = False"
| "json_serializable v = True"

definition json_dumps :: "pyval \<Rightarrow> pyval result" where
  "json_dumps v = (if json_serializable v then Inr v else Inl TypeError)"

text \<open>
  \<^verbatim>\<open>Response(status_code=..., content=..., headers=...)\<close>. The constructor of
  Starlette's \<open>Response\<close> sets the content-length header, for which it evaluates
  \<^verbatim>\<open>self.status_code < 200\<close>: TypeError for a status code that is no number.
\<close>

record response =
  status_code :: pyval
  content :: pyval
  headers :: "(string \<times> string) list"

definition Response_init :: "pyval \<Rightarrow> pyval \<Rightarrow> (string \<times> string) list \<Rightarrow> response result" where
  "Response_init status text hdrs =
     (if isinstance_int status \<or> isinstance_float status
      then Inr \<lparr>status_code = status, content = text, headers = hdrs\<rparr>
      else Inl TypeError)"

text \<open>
  The two \<^verbatim>\<open>except\<close> clauses select by class: \<open>HTTPException\<close> is a subclass of
  \<open>Exception\<close>, and an exception that is only a \<open>BaseException\<close> is caught by
  neither.
\<close>

fun isinstance_HTTPException :: "pyval \<Rightarrow> bool" where
  "isinstance_HTTPException (PObj c attrs) = (c = HTTPException_cls)"
| "isinstance_HTTPException v = False"

fun isinstance_Exception :: "pyval \<Rightarrow> bool" where
  "isinstance_Exception (PObj c attrs) = (c = HTTPException_cls \<or> c = Exception_cls)"
| "isinstance_Exception v = False"

text \<open>
  \<^verbatim>\<open>e.name\<close> where \<^verbatim>\<open>hasattr(e, "name")\<close> has just held. An exception
  object is given with all the attributes it exposes in its list, also \<open>args\<close>, which
  every exception of Python has.
\<close>

definition attr_value :: "pyval \<Rightarrow> string \<Rightarrow> pyval" where
  "attr_value e name = (case getattr e name of Inr v \<Rightarrow> v | Inl err \<Rightarrow> PNone)"

text \<open>
  The body of the \<^verbatim>\<open>except\<close> clauses of \<^verbatim>\<open>CustomMiddleware.dispatch\<close>; the
  source has the same statements under both. Each assignment gives the next version of its
  variable. \<open>error_content\<close> is built from the default \<open>error_detail\<close> before
  \<^verbatim>\<open>e.detail\<close> is read, and \<open>error_detail\<close> is not read again.
\<close>

definition except_body :: "pyval \<Rightarrow> response result" where
  "except_body e =
     (let status_code0 = PInt 500;
          error_detail0 = PStr ''Internal server error.'';
          error_content0 = [(PStr ''detail'', error_detail0)];
          status_code1 =
            (if hasattr e ''status_code'' then attr_value e ''status_code'' else status_code0);
          error_detail1 =
            (if hasattr e ''detail'' then attr_value e ''detail'' else error_detail0);
          error_content1 =
            (if hasattr e ''obj''
             then dict_update error_content0 (PStr ''obj'') (attr_value e ''obj'')
             else error_content0);
          error_content2 =
            (if hasattr e ''args''
             then dict_update error_content1 (PStr ''args'') (attr_value e ''args'')
             else error_content1);
          error_content3 =
            (if hasattr e ''_errors''
             then dict_update error_content2 (PStr ''errors'') (attr_value e ''_errors'')
             else error_content2)
      in err_bind (json_dumps (PDict error_content3)) (\<lambda>text.
           Response_init status_code1 text [(''Content-Type'', ''application/json'')]))"

text \<open>
  \<^verbatim>\<open>dispatch\<close>: \<^verbatim>\<open>call_next(request)\<close> returns a response or raises an exception
  object; the middleware answers, lets the exception through, or raises from its handler.
\<close>

datatype call_result = Returned response | Raised pyval

datatype dispatch_result = Responded response | Propagated pyval | Raised_in_handler pyerror

definition dispatch :: "call_result \<Rightarrow> dispatch_result" where
  "dispatch call_next =
     (case call_next of
        Returned r \<Rightarrow> Responded r
      | Raised e \<Rightarrow>
          if isinstance_HTTPException e then
            (case except_body e of Inr r \<Rightarrow> Responded r | Inl err \<Rightarrow> Raised_in_handler err)
          else if isinstance_Exception e then
            (case except_body e of Inr r \<Rightarrow> Responded r | Inl err \<Rightarrow> Raised_in_handler err)
          else Propagated e)"

section \<open>The filter classes of \<^verbatim>\<open>params.py\<close>\<close>

text \<open>
  The three constructors. \<^verbatim>\<open>Filter.__init__\<close> sets all five attributes (each
  parameter defaults to None); \<^verbatim>\<open>SingleFilter.__init__\<close> and
  \<^verbatim>\<open>CombinedFilter.__init__\<close> do not call it and set three and two attributes.
\<close>

definition Filter_init :: "pyval \<Rightarrow> pyval \<Rightarrow> pyval \<Rightarrow> pyval \<Rightarrow> pyval \<Rightarrow> pyval" where
  "Filter_init value operator_field field filter_elements operator =
     PObj Filter_cls
       [(''value'', value), (''operator_field'', operator_field), (''field'', field),
        (''filter_elements'', filter_elements), (''operator'', operator)]"

definition SingleFilter :: "pyval \<Rightarrow> pyval \<Rightarrow> pyval \<Rightarrow> pyval" where
  "SingleFilter value operator_field field =
     PObj SingleFilter_cls
       [(''value'', value), (''operator_field'', operator_field), (''field'', field)]"

definition CombinedFilter :: "pyval \<Rightarrow> pyval \<Rightarrow> pyval" where
  "CombinedFilter filter_elements operator =
     PObj CombinedFilter_cls [(''filter_elements'', filter_elements), (''operator'', operator)]"

text \<open>
  \<^verbatim>\<open>checkForList\<close> and \<^verbatim>\<open>checkForNum\<close> test \<^verbatim>\<open>self.value\<close>, not their
  parameter.
\<close>

definition checkForList :: "pyval \<Rightarrow> pyval \<Rightarrow> pyval result" where
  "checkForList self value =
     err_bind (getattr self ''value'') (\<lambda>v.
       if \<not> isinstance_list v then Inl (ValueError ''Value should be a list.'')
       else Inr PNone)"

definition checkForNum :: "pyval \<Rightarrow> pyval \<Rightarrow> pyval result" where
  "checkForNum self value =
     err_bind (getattr self ''value'') (\<lambda>v.
       if \<not> isinstance_int v \<and> \<not> isinstance_float v
       then Inl (ValueError ''Value should be a number.'')
       else Inr PNone)"

text \<open>
  \<^verbatim>\<open>f".*{self.value}.*"\<close>: a string is inserted as it is; the text that
  \<open>str()\<close> gives for any other value is the interpreter's and is a parameter
  \<open>str_of\<close> of the model.
\<close>

definition format_value :: "(pyval \<Rightarrow> string) \<Rightarrow> pyval \<Rightarrow> string" where
  "format_value str_of v = (case v of PStr s \<Rightarrow> s | _ \<Rightarrow> str_of v)"

text \<open>
  \<^verbatim>\<open>Filter.doBuildSingle(self)\<close>. \<^verbatim>\<open>self.operator_field\<close> is read by every
  condition of the chain; the reads have no effect and the first one raises if any does, so
  the model reads it once. In a store \<^verbatim>\<open>l_request[self.field] = e\<close> the right-hand
  side is evaluated before \<^verbatim>\<open>self.field\<close>.
\<close>

definition doBuildSingle :: "(pyval \<Rightarrow> string) \<Rightarrow> pyval \<Rightarrow> pyval result" where
  "doBuildSingle str_of self =
     err_bind (getattr self ''operator_field'') (\<lambda>operator_field.
       if py_eq_str operator_field (OP_FIELD_value EQ) then
         err_bind (getattr self ''value'') (\<lambda>value.
         err_bind (getattr self ''field'') (\<lambda>field.
           setitem [] field value))
       else if py_eq_str operator_field (OP_FIELD_value NE) then
         err_bind (getattr self ''value'') (\<lambda>value.
         err_bind (getattr self ''field'') (\<lambda>field.
           setitem [] field (PDict [(operator_field, value)])))
       else if py_eq_str operator_field (OP_FIELD_value NOT) then
         err_bind (getattr self ''value'') (\<lambda>value.
         err_bind (getattr self ''field'') (\<lambda>field.
           setitem [] field (PDict [(operator_field, value)])))
       else if py_eq_str operator_field (OP_FIELD_value CONTAIN) then
         err_bind (getattr self ''value'') (\<lambda>value.
         err_bind (getattr self ''field'') (\<lambda>field.
           setitem [] field
             (PDict [(operator_field, PStr (''.*'' @ format_value str_of value @ ''.*'')),
                     (PStr ''$options'', PStr ''i'')])))
       else if py_eq_str operator_field (OP_FIELD_value IN)
               \<or> py_eq_str operator_field (OP_FIELD_value NOT_IN) then
         err_bind (getattr self ''value'') (\<lambda>value.
         err_bind (checkForList self value) (\<lambda>_.
         err_bind (getattr self ''field'') (\<lambda>field.
           setitem [] field (PDict [(operator_field, value)]))))
       else if py_eq_str operator_field (OP_FIELD_value GT)
               \<or> py_eq_str operator_field (OP_FIELD_value GTE)
               \<or> py_eq_str operator_field (OP_FIELD_value LT)
               \<or> py_eq_str operator_field (OP_FIELD_value LTE) then
         err_bind (getattr self ''value'') (\<lambda>value.
         err_bind (checkForNum self value) (\<lambda>_.
         err_bind (getattr self ''field'') (\<lambda>field.
           setitem [] field (PDict [(operator_field, value)]))))
       else Inr (PDict []))"

text \<open>
  A call \<^verbatim>\<open>self.doBuildSingle(a1, ..., an)\<close>: the method takes no argument besides
  \<open>self\<close>, so a call that passes one raises TypeError before the body runs.
\<close>

definition call_doBuildSingle :: "(pyval \<Rightarrow> string) \<Rightarrow> pyval \<Rightarrow> pyval list \<Rightarrow> pyval result" where
  "call_doBuildSingle str_of self args =
     (if args = [] then doBuildSingle str_of self else Inl TypeError)"

text \<open>\<^verbatim>\<open>Filter.doBuildCombined(self, elements)\<close>.\<close>

definition doBuildCombined :: "pyval \<Rightarrow> pyval list \<Rightarrow> pyval result" where
  "doBuildCombined self elements =
     err_bind (getattr self ''operator'') (\<lambda>operator.
       if py_eq_str operator (OP_value AND)
          \<or> py_eq_str operator (OP_value OR)
          \<or> py_eq_str operator (OP_value NOR)
       then setitem [] operator (PList elements)
       else Inr (PDict []))"

text \<open>
  \<^verbatim>\<open>Filter.make(self)\<close>. In the else branch the comprehension calls
  \<^verbatim>\<open>self.doBuildSingle(single_filter)\<close> for each element, the value of
  \<^verbatim>\<open>self.doBuildCombined(elements)\<close> is dropped, and the \<open>l_request\<close> that is
  returned is still the empty dict of the first line.
\<close>

definition make :: "(pyval \<Rightarrow> string) \<Rightarrow> pyval \<Rightarrow> pyval result" where
  "make str_of self =
     err_bind (getattr self ''filter_elements'') (\<lambda>filter_elements.
       if \<not> py_truthy filter_elements then
         call_doBuildSingle str_of self []
       else
         err_bind (py_iter filter_elements) (\<lambda>items.
         err_bind (map_err (\<lambda>single_filter. call_doBuildSingle str_of self [single_filter]) items)
           (\<lambda>elements.
         err_bind (doBuildCombined self elements) (\<lambda>_.
           Inr (PDict [])))))"

text \<open>
  \<^verbatim>\<open>SingleFilter.apply\<close> and \<^verbatim>\<open>CombinedFilter.apply\<close>: a \<^verbatim>\<open>for\<close> loop over
  the members whose body returns in both branches; a loop that runs out of members falls
  off the end of the function, which returns None.
\<close>

fun SingleFilter_apply_loop :: "pyval \<Rightarrow> OP_FIELD list \<Rightarrow> pyval result" where
  "SingleFilter_apply_loop self [] = Inr PNone"
| "SingleFilter_apply_loop self (op # ops) =
     err_bind (getattr self ''operator_field'') (\<lambda>operator_field.
       if py_eq_str operator_field (OP_FIELD_value op) then Inr (PBool True)
       else Inr (PBool False))"

definition SingleFilter_apply :: "pyval \<Rightarrow> pyval result" where
  "SingleFilter_apply self = SingleFilter_apply_loop self OP_FIELD_members"

fun CombinedFilter_apply_loop :: "pyval \<Rightarrow> OP list \<Rightarrow> pyval result" where
  "CombinedFilter_apply_loop self [] = Inr PNone"
| "CombinedFilter_apply_loop self (op # ops) =
     err_bind (getattr self ''operator'') (\<lambda>operator.
       if py_eq_str operator (OP_value op) then Inr (PBool True)
       else Inr (PBool False))"

definition CombinedFilter_apply :: "pyval \<Rightarrow> pyval result" where
  "CombinedFilter_apply self = CombinedFilter_apply_loop self OP_members"

text \<open>
  The attributes \<^verbatim>\<open>Filter.__init__\<close> sets, which are the attributes the methods
  above read.
\<close>

definition filter_attributes :: "string list" where
  "filter_attributes = [''value'', ''operator_field'', ''field'', ''filter_elements'', ''operator'']"

section \<open>Basic facts\<close>

lemma err_bind_Inr [simp]: "err_bind (Inr x) f = f x"
  by (simp add: err_bind_def)

lemma err_bind_Inl [simp]: "err_bind (Inl e) f = Inl e"
  by (simp add: err_bind_def)

lemma getattr_SingleFilter [simp]:
  "getattr (SingleFilter v opf f) ''value'' = Inr v"
  "getattr (SingleFilter v opf f) ''operator_field'' = Inr opf"
  "getattr (SingleFilter v opf f) ''field'' = Inr f"
  "getattr (SingleFilter v opf f) ''filter_elements'' = Inl (AttributeError ''filter_elements'')"
  "getattr (SingleFilter v opf f) ''operator'' = Inl (AttributeError ''operator'')"
  by (simp_all add: SingleFilter_def)

lemma getattr_CombinedFilter [simp]:
  "getattr (CombinedFilter els op) ''filter_elements'' = Inr els"
  "getattr (CombinedFilter els op) ''operator'' = Inr op"
  "getattr (CombinedFilter els op) ''value'' = Inl (AttributeError ''value'')"
  "getattr (CombinedFilter els op) ''operator_field'' = Inl (AttributeError ''operator_field'')"
  "getattr (CombinedFilter els op) ''field'' = Inl (AttributeError ''field'')"
  by (simp_all add: CombinedFilter_def)

section \<open>Single-filter compilation: \<^verbatim>\<open>doBuildSingle\<close>\<close>

text \<open>
  C4. Compiling a single filter with \<open>doBuildSingle\<close> raises the value error at once
  exactly when the value has not the shape its operator needs. For the operator tokens
  \<open>$in\<close> and \<open>$nin\<close> it raises exactly when the value is not a list; for
  \<open>$gt\<close>, \<open>$gte\<close>, \<open>$lt\<close> and \<open>$lte\<close> exactly when the value is neither an
  int (a bool is one) nor a float. Otherwise the result is \<open>{F: {token: V}}\<close>.
\<close>

theorem doBuildSingle_type_constraint:
  "(op = IN \<or> op = NOT_IN \<longrightarrow>
      doBuildSingle str_of (SingleFilter V (PStr (OP_FIELD_value op)) (PStr F)) =
        (if isinstance_list V then Inr (PDict [(PStr F, PDict [(PStr (OP_FIELD_value op), V)])])
         else Inl (ValueError ''Value should be a list.'')))
   \<and> (op = GT \<or> op = GTE \<or> op = LT \<or> op = LTE \<longrightarrow>
      doBuildSingle str_of (SingleFilter V (PStr (OP_FIELD_value op)) (PStr F)) =
        (if isinstance_int V \<or> isinstance_float V
         then Inr (PDict [(PStr F, PDict [(PStr (OP_FIELD_value op), V)])])
         else Inl (ValueError ''Value should be a number.'')))"
  by (cases op)
    (simp_all add: doBuildSingle_def py_eq_str_def setitem_def checkForList_def checkForNum_def)

theorem doBuildSingle_type_constraint_witness:
  "\<forall>str_of.
     doBuildSingle str_of (SingleFilter (PStr ''abc'') (PStr ''$in'') (PStr ''f'')) =
       Inl (ValueError ''Value should be a list.'')
     \<and> doBuildSingle str_of
         (SingleFilter (PList [PStr ''x'', PStr ''y'']) (PStr ''$in'') (PStr ''f'')) =
       Inr (PDict [(PStr ''f'', PDict [(PStr ''$in'', PList [PStr ''x'', PStr ''y''])])])
     \<and> doBuildSingle str_of (SingleFilter (PInt 5) (PStr ''$gt'') (PStr ''age'')) =
       Inr (PDict [(PStr ''age'', PDict [(PStr ''$gt'', PInt 5)])])
     \<and> doBuildSingle str_of (SingleFilter (PStr ''x'') (PStr ''$gt'') (PStr ''age'')) =
       Inl (ValueError ''Value should be a number.'')"
  using doBuildSingle_type_constraint [of IN _ "PStr ''abc''" "''f''"]
    doBuildSingle_type_constraint [of IN _ "PList [PStr ''x'', PStr ''y'']" "''f''"]
    doBuildSingle_type_constraint [of GT _ "PInt 5" "''age''"]
    doBuildSingle_type_constraint [of GT _ "PStr ''x''" "''age''"]
  by simp

text \<open>
  C5. When the operator tag of a single filter is none of the ten tokens of
  \<open>OP_FIELD\<close>, \<open>doBuildSingle\<close> returns the empty document and raises nothing,
  whatever the value and the field are. A value of the wrong shape under a known tag does
  raise, whatever the field is: a value that is no list under \<open>$in\<close> or
  \<open>$nin\<close>, a value that is neither int nor float under \<open>$gt\<close>, \<open>$gte\<close>,
  \<open>$lt\<close> or \<open>$lte\<close>. So the same ill-shaped value is accepted silently under an
  unknown tag and refused under a known one.
\<close>

theorem doBuildSingle_unknown_operator:
  "(operator_field \<notin> set (map (\<lambda>m. PStr (OP_FIELD_value m)) OP_FIELD_members) \<longrightarrow>
      doBuildSingle str_of (SingleFilter V operator_field F) = Inr (PDict []))
   \<and> (\<not> isinstance_list V \<longrightarrow>
      doBuildSingle str_of (SingleFilter V (PStr ''$in'') F) =
        Inl (ValueError ''Value should be a list.'')
      \<and> doBuildSingle str_of (SingleFilter V (PStr ''$nin'') F) =
        Inl (ValueError ''Value should be a list.''))
   \<and> (\<not> isinstance_int V \<and> \<not> isinstance_float V \<longrightarrow>
      doBuildSingle str_of (SingleFilter V (PStr ''$gt'') F) =
        Inl (ValueError ''Value should be a number.'')
      \<and> doBuildSingle str_of (SingleFilter V (PStr ''$gte'') F) =
        Inl (ValueError ''Value should be a number.'')
      \<and> doBuildSingle str_of (SingleFilter V (PStr ''$lt'') F) =
        Inl (ValueError ''Value should be a number.'')
      \<and> doBuildSingle str_of (SingleFilter V (PStr ''$lte'') F) =
        Inl (ValueError ''Value should be a number.''))"
  by (simp add: doBuildSingle_def py_eq_str_def OP_FIELD_members_def checkForList_def
      checkForNum_def)

theorem doBuildSingle_unknown_operator_witness:
  "\<forall>str_of.
     PStr ''$exists'' \<notin> set (map (\<lambda>m. PStr (OP_FIELD_value m)) OP_FIELD_members)
     \<and> \<not> isinstance_list (PStr ''abc'')
     \<and> \<not> isinstance_int (PStr ''abc'') \<and> \<not> isinstance_float (PStr ''abc'')
     \<and> doBuildSingle str_of (SingleFilter (PStr ''abc'') (PStr ''$exists'') (PStr ''f'')) =
         Inr (PDict [])
     \<and> doBuildSingle str_of (SingleFilter (PStr ''abc'') (PStr ''$in'') (PStr ''f'')) =
         Inl (ValueError ''Value should be a list.'')
     \<and> doBuildSingle str_of (SingleFilter (PStr ''abc'') (PStr ''$gt'') (PStr ''f'')) =
         Inl (ValueError ''Value should be a number.'')"
  using doBuildSingle_unknown_operator [of "PStr ''$exists''" _ "PStr ''abc''" "PStr ''f''"]
  by (simp add: OP_FIELD_members_def)

text \<open>
  C6. For every field name \<open>F\<close> and value \<open>V\<close>, \<open>doBuildSingle\<close> on
  \<open>SingleFilter(V, "$eq", F)\<close> returns the bare document \<open>{F: V}\<close>. And the
  builder never writes the key \<open>$eq\<close>: a document of \<open>doBuildSingle\<close> is empty,
  or maps the field to the value itself, or maps it to a sub-document whose keys are an
  operator tag other than \<open>$eq\<close> and, for \<open>$regex\<close>, \<open>$options\<close>; a document
  of \<open>doBuildCombined\<close> is empty or has the one key \<open>$and\<close>, \<open>$or\<close> or
  \<open>$nor\<close>.
\<close>

theorem doBuildSingle_eq_bare:
  "doBuildSingle str_of (SingleFilter V (PStr ''$eq'') (PStr F)) = Inr (PDict [(PStr F, V)])
   \<and> (doBuildSingle str_of (SingleFilter V operator_field field) = Inr doc \<longrightarrow>
        doc = PDict [] \<or> doc = PDict [(field, V)]
        \<or> (operator_field \<noteq> PStr ''$eq''
            \<and> (doc = PDict [(field, PDict [(operator_field, V)])]
                \<or> doc = PDict [(field,
                      PDict [(operator_field, PStr (''.*'' @ format_value str_of V @ ''.*'')),
                             (PStr ''$options'', PStr ''i'')])])))
   \<and> (doBuildCombined self elements = Inr doc' \<longrightarrow>
        doc' = PDict [] \<or> doc' = PDict [(PStr ''$and'', PList elements)]
        \<or> doc' = PDict [(PStr ''$or'', PList elements)]
        \<or> doc' = PDict [(PStr ''$nor'', PList elements)])"
proof (intro conjI impI)
  show "doBuildSingle str_of (SingleFilter V (PStr ''$eq'') (PStr F)) = Inr (PDict [(PStr F, V)])"
    by (simp add: doBuildSingle_def py_eq_str_def setitem_def)
next
  assume "doBuildSingle str_of (SingleFilter V operator_field field) = Inr doc"
  then show "doc = PDict [] \<or> doc = PDict [(field, V)]
        \<or> (operator_field \<noteq> PStr ''$eq''
            \<and> (doc = PDict [(field, PDict [(operator_field, V)])]
                \<or> doc = PDict [(field,
                      PDict [(operator_field, PStr (''.*'' @ format_value str_of V @ ''.*'')),
                             (PStr ''$options'', PStr ''i'')])]))"
    by (auto simp add: doBuildSingle_def py_eq_str_def setitem_def checkForList_def
        checkForNum_def split: if_splits)
next
  assume "doBuildCombined self elements = Inr doc'"
  then show "doc' = PDict [] \<or> doc' = PDict [(PStr ''$and'', PList elements)]
        \<or> doc' = PDict [(PStr ''$or'', PList elements)]
        \<or> doc' = PDict [(PStr ''$nor'', PList elements)]"
    by (cases "getattr self ''operator''")
      (auto simp add: doBuildCombined_def py_eq_str_def setitem_def split: if_splits)
qed

theorem doBuildSingle_eq_bare_witness:
  "\<forall>str_of.
     doBuildSingle str_of (SingleFilter (PInt 1) (PStr ''$ne'') (PStr ''f'')) =
       Inr (PDict [(PStr ''f'', PDict [(PStr ''$ne'', PInt 1)])])
     \<and> doBuildCombined (Filter_init PNone PNone PNone PNone (PStr ''$or'')) [PInt 7] =
       Inr (PDict [(PStr ''$or'', PList [PInt 7])])
     \<and> doBuildSingle str_of (SingleFilter (PInt 1) (PStr ''$eq'') (PStr ''f'')) =
       Inr (PDict [(PStr ''f'', PInt 1)])"
  using doBuildSingle_eq_bare [of _ "PInt 1" "''f''" "PStr ''$ne''" "PStr ''f''"
      "PDict [(PStr ''f'', PDict [(PStr ''$ne'', PInt 1)])]"
      "Filter_init PNone PNone PNone PNone (PStr ''$or'')" "[PInt 7]"
      "PDict [(PStr ''$or'', PList [PInt 7])]"]
  by (simp add: doBuildSingle_def py_eq_str_def setitem_def doBuildCombined_def Filter_init_def)

text \<open>
  C7. For every string \<open>V\<close> and field name \<open>F\<close>, \<open>doBuildSingle\<close> on
  \<open>SingleFilter(V, "$regex", F)\<close> does not raise and returns
  \<open>{F: {"$regex": ".*" + V + ".*", "$options": "i"}}\<close>, the case-insensitive
  substring match.
\<close>

theorem doBuildSingle_contains:
  "doBuildSingle str_of (SingleFilter (PStr V) (PStr ''$regex'') (PStr F)) =
     Inr (PDict [(PStr F,
            PDict [(PStr ''$regex'', PStr (''.*'' @ V @ ''.*'')), (PStr ''$options'', PStr ''i'')])])"
  by (simp add: doBuildSingle_def py_eq_str_def setitem_def format_value_def)

lemma doBuildSingle_enum_member:
  "doBuildSingle str_of (SingleFilter v (PFieldOp m) f) = Inr (PDict [])"
  by (simp add: doBuildSingle_def py_eq_str_def)

section \<open>\<^verbatim>\<open>make\<close> on the two subclasses\<close>

text \<open>
  Neither subclass constructor sets the attributes of the other variant, so \<open>make\<close>
  raises on every instance of either: on a \<open>SingleFilter\<close> at the read of
  \<^verbatim>\<open>self.filter_elements\<close>, on a \<open>CombinedFilter\<close> with no elements at the read of
  \<^verbatim>\<open>self.operator_field\<close>, and on one with elements at the first call
  \<^verbatim>\<open>self.doBuildSingle(single_filter)\<close>.
\<close>

lemma make_SingleFilter:
  "make str_of (SingleFilter v opf f) = Inl (AttributeError ''filter_elements'')"
  by (simp add: make_def)

lemma make_CombinedFilter_empty:
  "make str_of (CombinedFilter (PList []) op) = Inl (AttributeError ''operator_field'')"
  by (simp add: make_def call_doBuildSingle_def doBuildSingle_def)

lemma make_CombinedFilter_nonempty:
  "make str_of (CombinedFilter (PList (x # xs)) op) = Inl TypeError"
  by (simp add: make_def call_doBuildSingle_def)

text \<open>
  On an instance of the base class, which has all five attributes, \<open>make\<close> with no
  elements is \<open>doBuildSingle\<close>.
\<close>

lemma make_Filter_no_elements:
  "make str_of (Filter_init v opf f PNone op) = doBuildSingle str_of (Filter_init v opf f PNone op)"
  by (simp add: make_def call_doBuildSingle_def Filter_init_def)

text \<open>
  C1. The specification lets \<open>make\<close> on a combined filter with operator \<open>$and\<close>,
  \<open>$or\<close> or \<open>$nor\<close> and a non-empty list of single filters return
  \<open>{token: [build(f1), ..., build(fn)]}\<close>. The source raises TypeError instead, at the
  call of \<open>doBuildSingle\<close> with an argument: shown here for
  \<open>CombinedFilter([SingleFilter(1, "$eq", "a"), SingleFilter(2, "$gt", "b")], "$and")\<close>.
\<close>

theorem make_combined_raises:
  "make str_of
     (CombinedFilter
        (PList [SingleFilter (PInt 1) (PStr ''$eq'') (PStr ''a''),
                SingleFilter (PInt 2) (PStr ''$gt'') (PStr ''b'')])
        (PStr ''$and''))
   = Inl TypeError"
  by (simp add: make_def call_doBuildSingle_def)

text \<open>
  C8. The specification lets \<open>make\<close> accept a combined filter with no elements and
  return an empty document. The source raises AttributeError instead, since a
  \<open>CombinedFilter\<close> has no attribute \<open>operator_field\<close>: shown here for
  \<open>CombinedFilter([], "$and")\<close>.
\<close>

theorem make_empty_combined_raises:
  "make str_of (CombinedFilter (PList []) (PStr ''$and'')) = Inl (AttributeError ''operator_field'')"
  by (simp add: make_def call_doBuildSingle_def doBuildSingle_def)

text \<open>
  C10. For a single filter whose \<open>operator_field\<close> is the Enum member \<open>OP_FIELD.IN\<close>
  and whose value is no list, \<open>doBuildSingle\<close> returns the empty document without a
  shape check, but \<open>make\<close> raises AttributeError, since a \<open>SingleFilter\<close> has no
  attribute \<open>filter_elements\<close>: shown here for \<open>SingleFilter("abc", OP_FIELD.IN, "f")\<close>.
\<close>

theorem make_single_enum_raises:
  "make str_of (SingleFilter (PStr ''abc'') (PFieldOp IN) (PStr ''f'')) =
     Inl (AttributeError ''filter_elements'')
   \<and> doBuildSingle str_of (SingleFilter (PStr ''abc'') (PFieldOp IN) (PStr ''f'')) =
     Inr (PDict [])"
  by (simp add: make_def doBuildSingle_def py_eq_str_def)

section \<open>Repeated calls of \<^verbatim>\<open>make\<close>\<close>

text \<open>
  The outcome of \<open>make\<close> depends on the five attributes of the object only, and no
  method of the builder assigns to one.
\<close>

lemma doBuildSingle_reads:
  assumes "getattr f1 ''value'' = getattr f2 ''value''"
    and "getattr f1 ''operator_field'' = getattr f2 ''operator_field''"
    and "getattr f1 ''field'' = getattr f2 ''field''"
  shows "doBuildSingle str_of f1 = doBuildSingle str_of f2"
  by (simp only: doBuildSingle_def checkForList_def checkForNum_def assms)

lemma doBuildCombined_reads:
  assumes "getattr f1 ''operator'' = getattr f2 ''operator''"
  shows "doBuildCombined f1 elements = doBuildCombined f2 elements"
  by (simp only: doBuildCombined_def assms)

lemma make_reads_attributes:
  assumes "list_all (\<lambda>name. getattr f1 name = getattr f2 name) filter_attributes"
  shows "make str_of f1 = make str_of f2"
proof -
  from assms have v: "getattr f1 ''value'' = getattr f2 ''value''"
    and opf: "getattr f1 ''operator_field'' = getattr f2 ''operator_field''"
    and f: "getattr f1 ''field'' = getattr f2 ''field''"
    and fe: "getattr f1 ''filter_elements'' = getattr f2 ''filter_elements''"
    and op: "getattr f1 ''operator'' = getattr f2 ''operator''"
    by (simp_all add: filter_attributes_def)
  have single: "doBuildSingle str_of f1 = doBuildSingle str_of f2"
    by (rule doBuildSingle_reads [OF v opf f])
  have call: "call_doBuildSingle str_of f1 = call_doBuildSingle str_of f2"
    by (rule ext) (simp only: call_doBuildSingle_def single)
  have comb: "doBuildCombined f1 = doBuildCombined f2"
    by (rule ext) (rule doBuildCombined_reads [OF op])
  show ?thesis
    by (simp only: make_def fe call comb)
qed

text \<open>A value that counts as true either cannot be iterated or has a first element.\<close>

lemma py_iter_truthy:
  assumes "py_truthy v"
  shows "py_iter v = Inl TypeError \<or> (\<exists>x xs. py_iter v = Inr (x # xs))"
proof (cases v)
  case (PStr s)
  with assms show ?thesis by (cases s) simp_all
next
  case (PList ys)
  with assms show ?thesis by (cases ys) simp_all
next
  case (PTuple ys)
  with assms show ?thesis by (cases ys) simp_all
next
  case (PDict kvs)
  with assms show ?thesis by (cases kvs) simp_all
qed simp_all

lemma make_CombinedFilter_truthy:
  assumes "py_truthy els"
  shows "make str_of (CombinedFilter els op) = Inl TypeError"
  using py_iter_truthy [OF assms] assms
  by (auto simp add: make_def call_doBuildSingle_def)

lemma make_CombinedFilter_falsy:
  assumes "\<not> py_truthy els"
  shows "make str_of (CombinedFilter els op) = Inl (AttributeError ''operator_field'')"
  using assms by (simp add: make_def call_doBuildSingle_def doBuildSingle_def)

text \<open>
  C9. The specification lets two calls of \<open>make\<close> on the same \<open>SingleFilter\<close> or
  \<open>CombinedFilter\<close> yield structurally equal query documents. In the source no call
  of \<open>make\<close> on an instance of either subclass yields a document: on every
  \<open>SingleFilter\<close> it raises AttributeError for \<open>filter_elements\<close>, on every
  \<open>CombinedFilter\<close> it raises TypeError when the elements count as true and
  AttributeError for \<open>operator_field\<close> when they do not. A second call raises the
  same error again, as \<open>make\<close> stores nothing.
\<close>

theorem make_yields_no_document:
  "make str_of (SingleFilter value operator_field field) =
     Inl (AttributeError ''filter_elements'')
   \<and> make str_of (CombinedFilter filter_elements operator) =
     (if py_truthy filter_elements then Inl TypeError
      else Inl (AttributeError ''operator_field''))"
  by (simp add: make_SingleFilter make_CombinedFilter_truthy make_CombinedFilter_falsy)

section \<open>The operator check: \<^verbatim>\<open>apply\<close>\<close>

text \<open>
  The loop returns in its first round, so \<open>apply\<close> compares with the first member
  only.
\<close>

lemma SingleFilter_apply_eq:
  "SingleFilter_apply (SingleFilter v opf f) = Inr (PBool (opf = PStr ''$eq''))"
  by (simp add: SingleFilter_apply_def OP_FIELD_members_def py_eq_str_def)

lemma CombinedFilter_apply_eq:
  "CombinedFilter_apply (CombinedFilter els op) = Inr (PBool (op = PStr ''$and''))"
  by (simp add: CombinedFilter_apply_def OP_members_def py_eq_str_def)

text \<open>
  C2. The specification lets the operator check return true for every token of the
  enumeration and false for any other tag. The source returns False for every tag but the
  first member's: shown here for \<open>SingleFilter(1, "$ne", "f").apply()\<close> and
  \<open>CombinedFilter([], "$or").apply()\<close>, both False although \<open>$ne\<close> and \<open>$or\<close>
  are tokens of \<open>OP_FIELD\<close> and \<open>OP\<close>.
\<close>

theorem apply_first_member_only:
  "SingleFilter_apply (SingleFilter (PInt 1) (PStr ''$ne'') (PStr ''f'')) = Inr (PBool False)
   \<and> CombinedFilter_apply (CombinedFilter (PList []) (PStr ''$or'')) = Inr (PBool False)"
  by (simp add: SingleFilter_apply_def OP_FIELD_members_def CombinedFilter_apply_def
      OP_members_def py_eq_str_def)

section \<open>The error handler\<close>

text \<open>
  A handled exception whose attributes hold a value that is no JSON value makes
  \<^verbatim>\<open>json.dumps\<close> raise inside the handler.
\<close>

lemma dispatch_handler_raises:
  "dispatch (Raised (PObj Exception_cls [(''args'', PTuple [PObj Exception_cls []])]))
   = Raised_in_handler TypeError"
  by (simp add: dispatch_def except_body_def attr_value_def json_dumps_def Response_init_def)

text \<open>
  A handled exception whose \<open>status_code\<close> is no number makes the constructor of the
  response raise inside the handler.
\<close>

lemma dispatch_status_not_numeric:
  "dispatch (Raised (PObj Exception_cls [(''status_code'', PStr ''404''), (''args'', PTuple [])]))
   = Raised_in_handler TypeError"
  by (simp add: dispatch_def except_body_def attr_value_def json_dumps_def Response_init_def)

text \<open>
  C3. The specification lets the body of the error response carry the exception's
  \<open>detail\<close> when it has one. The source takes the status code from the exception but
  always sends the default detail: shown here for
  \<open>HTTPException(status_code=404, detail="Not found")\<close>, answered with status 404 and
  the body \<open>{"detail": "Internal server error.", "args": []}\<close>.
\<close>

theorem dispatch_detail_dropped:
  "dispatch (Raised (PObj HTTPException_cls
       [(''status_code'', PInt 404), (''detail'', PStr ''Not found''), (''headers'', PNone),
        (''args'', PTuple [])]))
   = Responded \<lparr>status_code = PInt 404,
        content = PDict [(PStr ''detail'', PStr ''Internal server error.''),
                         (PStr ''args'', PTuple [])],
        headers = [(''Content-Type'', ''application/json'')]\<rparr>"
  by (simp add: dispatch_def except_body_def attr_value_def json_dumps_def Response_init_def)

end
